theory Spec2Isabelle
  imports Complex_Main "HOL-Library.Multiset"
begin

section \<open>Data model (amplify/data/resource.ts)\<close>

text \<open>
  The schema declares three models: Goal, Milestone and Donation. Identifiers are opaque
  and allotted by the data store; they are natural numbers here. Amounts are JavaScript
  numbers in the source; here an amount is the rational number the double stands for.
  Fields declared without \<open>.required()\<close> are optional.
\<close>

type_synonym ident = nat

datatype donationStatus = Pending | Completed | Failed

record goal =
  g_id :: ident
  g_name :: string
  g_description :: "string option"
  g_targetAmount :: rat
  g_stripeAccountId :: string
  g_editPassword :: string

record milestone =
  m_id :: ident
  m_goalId :: ident
  m_name :: string
  m_targetAmount :: rat
  m_order :: int

record donation =
  d_id :: ident
  d_goalId :: ident
  d_amount :: rat
  d_donorName :: "string option"
  d_message :: "string option"
  d_stripePaymentId :: string
  d_status :: "donationStatus option"
  d_createdAt :: int

text \<open>
  The data store: one table per model, the counter that allots identifiers and the clock
  that stamps \<open>createdAt\<close>.
\<close>

record store =
  Goal_tbl :: "goal list"
  Milestone_tbl :: "milestone list"
  Donation_tbl :: "donation list"
  nextId :: ident
  clock :: int

section \<open>Double-precision arithmetic\<close>

text \<open>
  Amounts are JavaScript numbers, that is IEEE 754 doubles. A finite double is a rational
  number, and an arithmetic operation on doubles is the exact operation followed by
  rounding to the nearest double, ties to the even significand. \<open>toDouble\<close> is that
  rounding, for a significand of 53 bits. The exponent is unbounded here: overflow,
  subnormal numbers, infinities and NaN are outside this development, and amounts of money
  are far from those ranges.
\<close>

fun ilog2 :: "nat \<Rightarrow> nat" where
  "ilog2 n = (if n < 2 then 0 else Suc (ilog2 (n div 2)))"

declare ilog2.simps [simp del]

definition pow2 :: "int \<Rightarrow> rat" where
  "pow2 e = (if e \<ge> 0 then 2 ^ nat e else 1 / 2 ^ nat (- e))"

text \<open>For \<open>a > 0\<close>, the exponent \<open>e\<close> with \<open>2 ^ e \<le> a < 2 ^ (e + 1)\<close>.\<close>

definition binade :: "rat \<Rightarrow> int" where
  "binade a =
     (if a \<ge> 1 then int (ilog2 (nat \<lfloor>a\<rfloor>))
      else (let k = int (ilog2 (nat \<lfloor>1 / a\<rfloor>))
            in if a = pow2 (- k) then - k else - k - 1))"

definition roundHalfEven :: "rat \<Rightarrow> int" where
  "roundHalfEven y =
     (let f = \<lfloor>y\<rfloor>; r = y - of_int f
      in if r < 1 / 2 then f else if r > 1 / 2 then f + 1 else if even f then f else f + 1)"

definition toDouble :: "rat \<Rightarrow> rat" where
  "toDouble x =
     (if x = 0 then 0
      else (let a = \<bar>x\<bar>; ulp = pow2 (binade a - 52)
            in sgn x * (of_int (roundHalfEven (a / ulp)) * ulp)))"

definition fadd :: "rat \<Rightarrow> rat \<Rightarrow> rat" where
  "fadd x y = toDouble (x + y)"

definition fsub :: "rat \<Rightarrow> rat \<Rightarrow> rat" where
  "fsub x y = toDouble (x - y)"

definition fmul :: "rat \<Rightarrow> rat \<Rightarrow> rat" where
  "fmul x y = toDouble (x * y)"

definition fdiv :: "rat \<Rightarrow> rat \<Rightarrow> rat" where
  "fdiv x y = toDouble (x / y)"

section \<open>Public goal page (GoalPage): the progress calculator\<close>

text \<open>
  \<open>client.models.Donation.list({ filter: { goalId: { eq: goalId } } })\<close> followed by
  \<open>.sort((a, b) => new Date(b.createdAt).getTime() - new Date(a.createdAt).getTime())\<close>:
  the goal's donations, newest first. The sort is stable, as \<open>Array.prototype.sort\<close> is.
\<close>

definition loadDonations :: "store \<Rightarrow> ident \<Rightarrow> donation list" where
  "loadDonations st goalId =
     sort_key (\<lambda>d. - d_createdAt d) (filter (\<lambda>d. d_goalId d = goalId) (Donation_tbl st))"

text \<open>
  \<open>client.models.Milestone.list({ filter: { goalId: { eq: goalId } } })\<close> followed by
  \<open>.sort((a, b) => a.order - b.order)\<close>.
\<close>

definition loadMilestones :: "store \<Rightarrow> ident \<Rightarrow> milestone list" where
  "loadMilestones st goalId =
     sort_key m_order (filter (\<lambda>m. m_goalId m = goalId) (Milestone_tbl st))"

text \<open>
  \<open>donations.filter((d) => d.status === 'completed').reduce((sum, d) => sum + d.amount, 0)\<close>
\<close>

definition currentAmount :: "donation list \<Rightarrow> rat" where
  "currentAmount donations =
     foldl (\<lambda>sum d. sum + d_amount d) 0
       (filter (\<lambda>d. d_status d = Some Completed) donations)"


text \<open>
  One entry of \<open>milestonePositions\<close>: the milestone itself (\<open>...m\<close>) with its marker
  position and its reached flag.
\<close>

record milestonePosition =
  mp_milestone :: milestone
  position :: rat
  reached :: bool

text \<open>
  The body of \<open>milestones.map((m) => { runningTotal += m.targetAmount; ... })\<close>, with the
  mutable \<open>runningTotal\<close> passed along.
\<close>

fun positionsFrom :: "rat \<Rightarrow> goal \<Rightarrow> rat \<Rightarrow> milestone list \<Rightarrow> milestonePosition list" where
  "positionsFrom runningTotal g cur [] = []"
| "positionsFrom runningTotal g cur (m # ms) =
     (let runningTotal' = runningTotal + m_targetAmount m in
        \<lparr> mp_milestone = m,
          position = (runningTotal' / g_targetAmount g) * 100,
          reached = (cur \<ge> runningTotal') \<rparr>
        # positionsFrom runningTotal' g cur ms)"

definition milestonePositions :: "goal option \<Rightarrow> milestone list \<Rightarrow> rat \<Rightarrow> milestonePosition list" where
  "milestonePositions goal ms cur =
     (case goal of
        None \<Rightarrow> []
      | Some g \<Rightarrow> if length ms = 0 then [] else positionsFrom 0 g cur ms)"

text \<open>
  The cumulative threshold of the milestone at index \<open>i\<close>: its own targetAmount plus
  those of all milestones before it.
\<close>

definition cumulativeThreshold :: "milestone list \<Rightarrow> nat \<Rightarrow> rat" where
  "cumulativeThreshold ms i = sum_list (map m_targetAmount (take (Suc i) ms))"

subsection \<open>The same computations in double arithmetic\<close>

text \<open>
  The definitions above add and divide exactly; they serve the statements in which
  rounding plays no part. The page itself computes in doubles: \<open>reduce\<close> adds the amounts
  one by one from the left, in the order of the sorted list, and \<open>runningTotal +=\<close> rounds
  after every milestone. The following definitions repeat \<open>currentAmount\<close> and
  \<open>milestonePositions\<close> with every operation rounded.
\<close>

definition currentAmount64 :: "donation list \<Rightarrow> rat" where
  "currentAmount64 donations =
     foldl (\<lambda>sum d. fadd sum (d_amount d)) 0
       (filter (\<lambda>d. d_status d = Some Completed) donations)"

fun positionsFrom64 :: "rat \<Rightarrow> goal \<Rightarrow> rat \<Rightarrow> milestone list \<Rightarrow> milestonePosition list" where
  "positionsFrom64 runningTotal g cur [] = []"
| "positionsFrom64 runningTotal g cur (m # ms) =
     (let runningTotal' = fadd runningTotal (m_targetAmount m) in
        \<lparr> mp_milestone = m,
          position = fmul (fdiv runningTotal' (g_targetAmount g)) 100,
          reached = (cur \<ge> runningTotal') \<rparr>
        # positionsFrom64 runningTotal' g cur ms)"

definition milestonePositions64 :: "goal option \<Rightarrow> milestone list \<Rightarrow> rat \<Rightarrow> milestonePosition list" where
  "milestonePositions64 goal ms cur =
     (case goal of
        None \<Rightarrow> []
      | Some g \<Rightarrow> if length ms = 0 then [] else positionsFrom64 0 g cur ms)"

text \<open>
  The value of \<open>runningTotal\<close> at the milestone at index \<open>i\<close>: the targetAmounts up to and
  including it, added from the left with rounding after each addition.
\<close>

definition runningTotal64 :: "milestone list \<Rightarrow> nat \<Rightarrow> rat" where
  "runningTotal64 ms i = foldl fadd 0 (map m_targetAmount (take (Suc i) ms))"

section \<open>Payment webhook (amplify/functions/stripe-webhook/handler.ts)\<close>

text \<open>
  The parsed request. \<open>stripe_signature\<close> is \<open>event.headers['stripe-signature']\<close>
  (\<open>None\<close> when the header is absent). \<open>body\<close> is the result of
  \<open>JSON.parse(event.body || '{}')\<close>: \<open>None\<close> when parsing throws or yields a value whose
  \<open>type\<close> cannot be read. In an event, \<open>data_object\<close> is \<open>stripeEvent.data.object\<close>,
  \<open>None\<close> when \<open>data\<close> or \<open>object\<close> is missing; in a session, \<open>metadata\<close> is \<open>None\<close> when
  the session has none. Reading through a missing value throws a TypeError.
  \<open>amount_total\<close> is in minor units (cents).
\<close>

record sessionMetadata =
  goalId :: "ident option"
  donorName :: "string option"
  message :: "string option"

record checkoutSession =
  metadata :: "sessionMetadata option"
  amount_total :: "int option"
  payment_intent :: "string option"

record stripeEvent =
  ev_type :: "string option"
  data_object :: "checkoutSession option"

record webhookRequest =
  stripe_signature :: "string option"
  body :: "stripeEvent option"

text \<open>
  The \<open>createDonation\<close> mutation. The schema requires \<open>goalId\<close>, \<open>amount\<close> and
  \<open>stripePaymentId\<close>; a request that lacks one of them, or that the transport fails
  (\<open>gqlFails\<close>), is rejected and \<open>client.graphql\<close> throws. Otherwise one row is appended,
  with a fresh identifier and the current time. The schema puts no uniqueness constraint
  or index on \<open>stripePaymentId\<close>, and the mutation looks nothing up.
\<close>

record createDonationInput =
  in_goalId :: "ident option"
  in_amount :: "rat option"
  in_donorName :: string
  in_message :: string
  in_stripePaymentId :: "string option"
  in_status :: donationStatus

definition createDonation :: "bool \<Rightarrow> createDonationInput \<Rightarrow> store \<Rightarrow> store option" where
  "createDonation gqlFails inp st =
     (if gqlFails then None
      else case in_goalId inp of
        None \<Rightarrow> None
      | Some gid \<Rightarrow>
         (case in_amount inp of
            None \<Rightarrow> None
          | Some amt \<Rightarrow>
             (case in_stripePaymentId inp of
                None \<Rightarrow> None
              | Some pid \<Rightarrow>
                 Some (st\<lparr> Donation_tbl := Donation_tbl st @
                              [\<lparr> d_id = nextId st, d_goalId = gid, d_amount = amt,
                                 d_donorName = Some (in_donorName inp),
                                 d_message = Some (in_message inp),
                                 d_stripePaymentId = pid,
                                 d_status = Some (in_status inp),
                                 d_createdAt = clock st \<rparr>],
                            nextId := Suc (nextId st) \<rparr>))))"

text \<open>\<open>x || dflt\<close> on an optional string: a missing or empty string is falsy.\<close>

definition orElse :: "string option \<Rightarrow> string \<Rightarrow> string" where
  "orElse x dflt = (case x of None \<Rightarrow> dflt | Some s \<Rightarrow> if s = [] then dflt else s)"

text \<open>
  The handler returns the HTTP status code and the store it leaves behind. Its only test of
  the signature is \<open>if (!signature)\<close>: a missing or empty header gives 400. Every thrown
  error is caught and gives 500.
\<close>

definition handler :: "bool \<Rightarrow> webhookRequest \<Rightarrow> store \<Rightarrow> nat \<times> store" where
  "handler gqlFails event st =
     (case stripe_signature event of
        None \<Rightarrow> (400, st)
      | Some signature \<Rightarrow>
         if signature = [] then (400, st)
         else
          (case body event of
             None \<Rightarrow> (500, st)
           | Some ev \<Rightarrow>
              if ev_type ev = Some ''checkout.session.completed'' then
                (case data_object ev of
                   None \<Rightarrow> (500, st)
                 | Some session \<Rightarrow>
                    (case metadata session of
                       None \<Rightarrow> (500, st)
                     | Some md \<Rightarrow>
                        (case createDonation gqlFails
                                \<lparr> in_goalId = goalId md,
                                  in_amount = map_option (\<lambda>a. of_int a / 100) (amount_total session),
                                  in_donorName = orElse (donorName md) ''Anonymous'',
                                  in_message = orElse (message md) [],
                                  in_stripePaymentId = payment_intent session,
                                  in_status = Completed \<rparr> st of
                           None \<Rightarrow> (500, st)
                         | Some st' \<Rightarrow> (200, st'))))
              else (200, st)))"

text \<open>
  A well-formed \<open>checkout.session.completed\<close> notification for a payment, as the payment
  provider sends it, carrying the given signature header.
\<close>

definition paymentCompleted ::
  "string \<Rightarrow> ident \<Rightarrow> int \<Rightarrow> string option \<Rightarrow> string option \<Rightarrow> string \<Rightarrow> webhookRequest" where
  "paymentCompleted signature gid cents name msg pid =
     \<lparr> stripe_signature = Some signature,
       body = Some \<lparr> ev_type = Some ''checkout.session.completed'',
                     data_object = Some \<lparr> metadata = Some \<lparr> goalId = Some gid,
                                                             donorName = name,
                                                             message = msg \<rparr>,
                                          amount_total = Some cents,
                                          payment_intent = Some pid \<rparr> \<rparr> \<rparr>"

text \<open>The completed-donations feed of the goal page: \<open>donations.filter((d) => d.status === 'completed')\<close>.\<close>

definition completedFeed :: "store \<Rightarrow> ident \<Rightarrow> donation list" where
  "completedFeed st gid = filter (\<lambda>d. d_status d = Some Completed) (loadDonations st gid)"

section \<open>Goal forms (CreateGoalPage, EditGoalPage)\<close>

text \<open>
  \<open>GoalFormData\<close> is the form's value, which \<open>handleSubmit\<close> passes to \<open>onSubmit\<close> once the
  schema accepts it. The pages keep their own list of milestone rows (the \<open>milestones\<close>
  state) next to the form; the watched values are read from the form at the indices of
  those rows.
\<close>

record milestoneInput =
  mi_name :: string
  mi_targetAmount :: rat

record GoalFormData =
  fd_name :: string
  fd_description :: "string option"
  fd_targetAmount :: rat
  fd_milestones :: "milestoneInput list"

record milestoneRow =
  row_id :: "ident option"
  row_name :: string
  row_targetAmount :: rat

text \<open>\<open>watch('targetAmount') || 0\<close>\<close>

definition watchedTarget :: "GoalFormData \<Rightarrow> rat" where
  "watchedTarget data = fd_targetAmount data"

text \<open>
  \<open>milestones.map((_, index) => ({ ..., targetAmount: watch(`milestones.${index}.targetAmount`) || 0 }))\<close>:
  a row with no value in the form reads as 0.
\<close>

definition watchedMilestones :: "milestoneRow list \<Rightarrow> GoalFormData \<Rightarrow> rat list" where
  "watchedMilestones rows data =
     map (\<lambda>index. if index < length (fd_milestones data)
                    then mi_targetAmount (fd_milestones data ! index) else 0)
         [0 ..< length rows]"

text \<open>The running totals: \<open>runningTotal += amount; return runningTotal\<close>, in doubles.\<close>

fun runningTotalsFrom :: "rat \<Rightarrow> rat list \<Rightarrow> rat list" where
  "runningTotalsFrom runningTotal [] = []"
| "runningTotalsFrom runningTotal (amount # rest) =
     fadd runningTotal amount # runningTotalsFrom (fadd runningTotal amount) rest"

definition milestoneRunningTotals :: "milestoneRow list \<Rightarrow> GoalFormData \<Rightarrow> rat list" where
  "milestoneRunningTotals rows data = runningTotalsFrom 0 (watchedMilestones rows data)"

text \<open>\<open>milestoneRunningTotals[milestoneRunningTotals.length - 1] || 0\<close>\<close>

definition totalMilestoneAmount :: "milestoneRow list \<Rightarrow> GoalFormData \<Rightarrow> rat" where
  "totalMilestoneAmount rows data =
     (case milestoneRunningTotals rows data of [] \<Rightarrow> 0 | t # ts \<Rightarrow> last (t # ts))"

text \<open>
  \<open>Math.abs(totalMilestoneAmount - watchedTarget) > 0.01\<close>: the difference is rounded, and
  the literal \<open>0.01\<close> is the double nearest to one hundredth.
\<close>

definition milestoneMismatch :: "milestoneRow list \<Rightarrow> GoalFormData \<Rightarrow> bool" where
  "milestoneMismatch rows data =
     (\<bar>fsub (totalMilestoneAmount rows data) (watchedTarget data)\<bar> > toDouble (1 / 100))"

text \<open>
  \<open>removeMilestone\<close> of both pages: \<open>setMilestones(milestones.filter((_, i) => i !== index))\<close>.
  It shortens the list of rows and does nothing to the form: the inputs are registered
  under their index, so the shortened list shows the values of the first indices, and the
  value the form holds at the last index stays in it.
\<close>

definition removeMilestone :: "nat \<Rightarrow> milestoneRow list \<Rightarrow> milestoneRow list" where
  "removeMilestone index rows = map snd (filter (\<lambda>(i, _). i \<noteq> index) (enumerate 0 rows))"

section \<open>Data client operations used by the forms\<close>

text \<open>
  Each call to the data client may fail; which calls fail is an input of the model.
  \<open>deleteFails\<close> is asked by milestone identifier, \<open>createFails\<close> by the index of the
  submitted milestone. A failed call writes nothing, and \<open>client.models\<close> reports it in the
  value it resolves with (\<open>data: null\<close> and a list of errors), not by rejecting: the caller
  notices it only where it reads that value.
\<close>

record faults =
  goalWriteFails :: bool
  deleteFails :: "ident \<Rightarrow> bool"
  createFails :: "nat \<Rightarrow> bool"

definition noFaults :: faults where
  "noFaults = \<lparr> goalWriteFails = False, deleteFails = (\<lambda>_. False), createFails = (\<lambda>_. False) \<rparr>"

definition Goal_get :: "store \<Rightarrow> ident \<Rightarrow> goal option" where
  "Goal_get st gid = find (\<lambda>g. g_id g = gid) (Goal_tbl st)"

text \<open>\<open>client.models.Goal.create\<close>, with \<open>description: data.description || ''\<close>.\<close>

definition Goal_create :: "GoalFormData \<Rightarrow> string \<Rightarrow> string \<Rightarrow> store \<Rightarrow> store" where
  "Goal_create data accountId hashedPassword st =
     st\<lparr> Goal_tbl := Goal_tbl st @
            [\<lparr> g_id = nextId st, g_name = fd_name data,
               g_description = Some (orElse (fd_description data) []),
               g_targetAmount = fd_targetAmount data,
               g_stripeAccountId = accountId,
               g_editPassword = hashedPassword \<rparr>],
         nextId := Suc (nextId st) \<rparr>"

text \<open>\<open>client.models.Goal.update\<close>; an update of a goal that is not stored is rejected.\<close>

definition Goal_update :: "ident \<Rightarrow> GoalFormData \<Rightarrow> store \<Rightarrow> store option" where
  "Goal_update gid data st =
     (case Goal_get st gid of
        None \<Rightarrow> None
      | Some _ \<Rightarrow>
         Some (st\<lparr> Goal_tbl :=
                 map (\<lambda>g. if g_id g = gid
                           then g\<lparr> g_name := fd_name data,
                                  g_description := Some (orElse (fd_description data) []),
                                  g_targetAmount := fd_targetAmount data \<rparr>
                           else g)
                     (Goal_tbl st) \<rparr>))"

definition Milestone_delete :: "ident \<Rightarrow> store \<Rightarrow> store" where
  "Milestone_delete mid st = st\<lparr> Milestone_tbl := filter (\<lambda>m. m_id m \<noteq> mid) (Milestone_tbl st) \<rparr>"

definition Milestone_create :: "ident \<Rightarrow> string \<Rightarrow> rat \<Rightarrow> int \<Rightarrow> store \<Rightarrow> store" where
  "Milestone_create gid name amount ord st =
     st\<lparr> Milestone_tbl := Milestone_tbl st @
            [\<lparr> m_id = nextId st, m_goalId = gid, m_name = name,
               m_targetAmount = amount, m_order = ord \<rparr>],
         nextId := Suc (nextId st) \<rparr>"

text \<open>
  \<open>Promise.all(existingMilestones.map((m) => client.models.Milestone.delete({ id: m.id })))\<close>:
  every delete is issued; those that do not fail take effect.
\<close>

fun deleteAll :: "(ident \<Rightarrow> bool) \<Rightarrow> milestone list \<Rightarrow> store \<Rightarrow> store" where
  "deleteAll fails [] st = st"
| "deleteAll fails (m # ms) st =
     deleteAll fails ms (if fails (m_id m) then st else Milestone_delete (m_id m) st)"

text \<open>
  \<open>Promise.all(data.milestones.map((milestone, index) => client.models.Milestone.create({ goalId,
  name: milestone.name, targetAmount: milestone.targetAmount, order: index })))\<close>:
  every create is issued; those that do not fail take effect.
\<close>

fun createAll :: "(nat \<Rightarrow> bool) \<Rightarrow> ident \<Rightarrow> nat \<Rightarrow> milestoneInput list \<Rightarrow> store \<Rightarrow> store" where
  "createAll fails gid index [] st = st"
| "createAll fails gid index (milestone # rest) st =
     createAll fails gid (Suc index) rest
       (if fails index then st
        else Milestone_create gid (mi_name milestone) (mi_targetAmount milestone) (int index) st)"

section \<open>Edit page (EditGoalPage)\<close>

record editPage =
  ep_goalId :: ident
  ep_password :: string
  ep_goal :: "goal option"
  existingMilestones :: "milestone list"
  milestones :: "milestoneRow list"

datatype loadError = GoalNotFound | InvalidPassword

text \<open>
  \<open>loadGoal\<close>: fetch the goal, compare the password of the URL with the stored hash
  (\<open>bcrypt.compare\<close>, a library function, is a parameter), then fetch and sort the
  milestones. A failed \<open>Goal.get\<close> resolves without data and is taken for a missing goal.
  Each error branch shows its alert and navigates away from the page; the function writes
  nothing to the store.
\<close>

definition loadGoal ::
  "(string \<Rightarrow> string \<Rightarrow> bool) \<Rightarrow> bool \<Rightarrow> store \<Rightarrow> ident \<Rightarrow> string \<Rightarrow> loadError + editPage" where
  "loadGoal bcrypt_compare readFails st gid password =
     (case (if readFails then None else Goal_get st gid) of
        None \<Rightarrow> Inl GoalNotFound
      | Some g \<Rightarrow>
         if \<not> bcrypt_compare password (g_editPassword g) then Inl InvalidPassword
         else
           (let sortedMilestones = loadMilestones st gid in
            Inr \<lparr> ep_goalId = gid, ep_password = password, ep_goal = Some g,
                  existingMilestones = sortedMilestones,
                  milestones = map (\<lambda>m. \<lparr> row_id = Some (m_id m), row_name = m_name m,
                                            row_targetAmount = m_targetAmount m \<rparr>)
                                   sortedMilestones \<rparr>))"

text \<open>
  The values \<open>loadGoal\<close> puts into the form with \<open>reset\<close>: the goal's fields and the sorted
  milestones.
\<close>

definition resetValues :: "goal \<Rightarrow> milestone list \<Rightarrow> GoalFormData" where
  "resetValues g sortedMilestones =
     \<lparr> fd_name = g_name g,
       fd_description = Some (orElse (g_description g) []),
       fd_targetAmount = g_targetAmount g,
       fd_milestones = map (\<lambda>m. \<lparr> mi_name = m_name m, mi_targetAmount = m_targetAmount m \<rparr>)
                           sortedMilestones \<rparr>"

datatype submitResult = MilestoneMismatch | Saved

text \<open>
  \<open>onSubmit\<close> of the edit page: the mismatch check, then the goal update, the deletes of
  \<open>existingMilestones\<close> and the creates of \<open>data.milestones\<close>, one \<open>await\<close> after the other.
  The results of the calls are not read: a call that fails writes nothing, the next ones
  run all the same, and the page shows its success message.
\<close>

definition onSubmit :: "faults \<Rightarrow> editPage \<Rightarrow> GoalFormData \<Rightarrow> store \<Rightarrow> submitResult \<times> store" where
  "onSubmit fl page data st =
     (if milestoneMismatch (milestones page) data then (MilestoneMismatch, st)
      else
        (let st1 = (if goalWriteFails fl then st
                    else case Goal_update (ep_goalId page) data st of
                      None \<Rightarrow> st
                    | Some updated \<Rightarrow> updated);
             st2 = deleteAll (deleteFails fl) (existingMilestones page) st1;
             st3 = createAll (createFails fl) (ep_goalId page) 0 (fd_milestones data) st2
         in (Saved, st3)))"

text \<open>
  A visit of the edit URL \<open>/goal/:goalId/edit/:password\<close>: the page loads the goal; when
  loading ends in an error the page is left and nothing can be submitted; otherwise the
  visitor edits the rows and the form and saves.
\<close>

definition editVisit ::
  "(string \<Rightarrow> string \<Rightarrow> bool) \<Rightarrow> faults \<Rightarrow> store \<Rightarrow> ident \<Rightarrow> string \<Rightarrow> milestoneRow list \<Rightarrow> GoalFormData
     \<Rightarrow> (loadError + submitResult) \<times> store" where
  "editVisit bcrypt_compare fl st gid password rows data =
     (case loadGoal bcrypt_compare False st gid password of
        Inl e \<Rightarrow> (Inl e, st)
      | Inr page \<Rightarrow>
         (case onSubmit fl (page\<lparr> milestones := rows \<rparr>) data st of
            (r, st') \<Rightarrow> (Inr r, st')))"

section \<open>Create page (CreateGoalPage)\<close>

datatype createResult = CreateMismatch | CreationFailed | Created ident string

text \<open>
  \<open>onSubmit\<close> of the create page. \<open>editPassword\<close> is the string built from
  \<open>Math.random()\<close>; \<open>bcrypt_hash\<close> stands for \<open>bcrypt.hash(editPassword, 10)\<close>. The result
  of \<open>Goal.create\<close> is read (\<open>if (!goalResult.data) throw\<close>), the results of the milestone
  creates are not. On success the page navigates to the edit URL, which carries the goal's
  identifier and the password in clear: this is where the password is issued.
\<close>

definition createOnSubmit ::
  "(string \<Rightarrow> string) \<Rightarrow> faults \<Rightarrow> string \<Rightarrow> string \<Rightarrow> milestoneRow list \<Rightarrow> GoalFormData \<Rightarrow> store
     \<Rightarrow> createResult \<times> store" where
  "createOnSubmit bcrypt_hash fl editPassword accountId rows data st =
     (if milestoneMismatch rows data then (CreateMismatch, st)
      else if goalWriteFails fl then (CreationFailed, st)
      else
        (let hashedPassword = bcrypt_hash editPassword;
             gid = nextId st;
             st1 = Goal_create data accountId hashedPassword st;
             st2 = createAll (createFails fl) gid 0 (fd_milestones data) st1
         in (Created gid editPassword, st2)))"

section \<open>Example data\<close>

text \<open>The milestone ladder: increments 1000, 1500 and 500 on a goal of 3000.\<close>

definition ladderGoal :: goal where
  "ladderGoal = \<lparr> g_id = 1, g_name = ''Honeymoon'', g_description = None, g_targetAmount = 3000,
                  g_stripeAccountId = ''acct_1'', g_editPassword = ''hash'' \<rparr>"

definition ladderMilestones :: "milestone list" where
  "ladderMilestones =
     [\<lparr> m_id = 2, m_goalId = 1, m_name = ''Flights'', m_targetAmount = 1000, m_order = 0 \<rparr>,
      \<lparr> m_id = 3, m_goalId = 1, m_name = ''Hotel'', m_targetAmount = 1500, m_order = 1 \<rparr>,
      \<lparr> m_id = 4, m_goalId = 1, m_name = ''Upgrade'', m_targetAmount = 500, m_order = 2 \<rparr>]"

text \<open>A goal of 1000 whose two stored milestones add up to 1200.\<close>

definition overGoal :: goal where
  "overGoal = \<lparr> g_id = 1, g_name = ''Trip'', g_description = None, g_targetAmount = 1000,
                g_stripeAccountId = ''acct_1'', g_editPassword = ''hash'' \<rparr>"

definition overMilestones :: "milestone list" where
  "overMilestones =
     [\<lparr> m_id = 2, m_goalId = 1, m_name = ''Flights'', m_targetAmount = 600, m_order = 0 \<rparr>,
      \<lparr> m_id = 3, m_goalId = 1, m_name = ''Hotel'', m_targetAmount = 600, m_order = 1 \<rparr>]"

definition emptyStore :: store where
  "emptyStore = \<lparr> Goal_tbl = [], Milestone_tbl = [], Donation_tbl = [], nextId = 1, clock = 0 \<rparr>"

text \<open>A ledger with donations of every status for goal 1 and one donation for goal 2.\<close>

definition mixedDonations :: "donation list" where
  "mixedDonations =
     [\<lparr> d_id = 10, d_goalId = 1, d_amount = 50, d_donorName = Some ''Ann'', d_message = None,
         d_stripePaymentId = ''pi_a'', d_status = Some Completed, d_createdAt = 5 \<rparr>,
      \<lparr> d_id = 11, d_goalId = 1, d_amount = 20, d_donorName = None, d_message = None,
         d_stripePaymentId = ''pi_b'', d_status = Some Pending, d_createdAt = 6 \<rparr>,
      \<lparr> d_id = 12, d_goalId = 2, d_amount = 30, d_donorName = None, d_message = None,
         d_stripePaymentId = ''pi_c'', d_status = Some Completed, d_createdAt = 7 \<rparr>,
      \<lparr> d_id = 13, d_goalId = 1, d_amount = 5, d_donorName = None, d_message = None,
         d_stripePaymentId = ''pi_d'', d_status = Some Failed, d_createdAt = 8 \<rparr>,
      \<lparr> d_id = 14, d_goalId = 1, d_amount = 25, d_donorName = None, d_message = None,
         d_stripePaymentId = ''pi_e'', d_status = Some Completed, d_createdAt = 9 \<rparr>]"

definition mixedStore :: store where
  "mixedStore = emptyStore\<lparr> Donation_tbl := mixedDonations, nextId := 20 \<rparr>"

text \<open>
  A completed donation for goal 1 as the webhook stores it: the amount is
  \<open>amount_total / 100\<close>, computed in doubles.
\<close>

definition centsDonation :: "ident \<Rightarrow> int \<Rightarrow> int \<Rightarrow> donation" where
  "centsDonation i cents t =
     \<lparr> d_id = i, d_goalId = 1, d_amount = fdiv (of_int cents) 100, d_donorName = Some ''Anonymous'',
       d_message = Some [], d_stripePaymentId = ''pi'', d_status = Some Completed,
       d_createdAt = t \<rparr>"

text \<open>
  Donations of 0.10, 0.20 and 0.30 created in the same millisecond, and the same three
  donations stored in the opposite order.
\<close>

definition tieLedger :: "donation list" where
  "tieLedger = [centsDonation 10 10 5, centsDonation 11 20 5, centsDonation 12 30 5]"

definition tieStore :: store where
  "tieStore = emptyStore\<lparr> Donation_tbl := tieLedger, nextId := 20 \<rparr>"

definition tieStoreRev :: store where
  "tieStoreRev = emptyStore\<lparr> Donation_tbl := rev tieLedger, nextId := 20 \<rparr>"

text \<open>
  The same three amounts inserted one after the other, in ascending and in descending
  order of amount.
\<close>

definition ascendingStore :: store where
  "ascendingStore =
     emptyStore\<lparr> Donation_tbl := [centsDonation 10 10 1, centsDonation 11 20 2, centsDonation 12 30 3],
                 nextId := 20 \<rparr>"

definition descendingStore :: store where
  "descendingStore =
     emptyStore\<lparr> Donation_tbl := [centsDonation 10 30 1, centsDonation 11 20 2, centsDonation 12 10 3],
                 nextId := 20 \<rparr>"

text \<open>Milestones of 0.10 and 0.20, and milestones of 0.01 and 0.10, as the form stores them.\<close>

definition dimeMilestones :: "milestone list" where
  "dimeMilestones =
     [\<lparr> m_id = 2, m_goalId = 1, m_name = ''First'', m_targetAmount = toDouble (10 / 100), m_order = 0 \<rparr>,
      \<lparr> m_id = 3, m_goalId = 1, m_name = ''Second'', m_targetAmount = toDouble (20 / 100), m_order = 1 \<rparr>]"

definition centMilestones :: "milestone list" where
  "centMilestones =
     [\<lparr> m_id = 2, m_goalId = 1, m_name = ''First'', m_targetAmount = toDouble (1 / 100), m_order = 0 \<rparr>,
      \<lparr> m_id = 3, m_goalId = 1, m_name = ''Second'', m_targetAmount = toDouble (10 / 100), m_order = 1 \<rparr>]"




text \<open>
  A notification whose signature header was not produced with any secret: the string
  \<open>forged\<close> is not even of the provider's \<open>t=...,v1=...\<close> form.
\<close>

definition forgedRequest :: webhookRequest where
  "forgedRequest = paymentCompleted ''forged'' 1 5000 None None ''pi_9''"

definition afterForged :: store where
  "afterForged = snd (handler False forgedRequest emptyStore)"

text \<open>
  A stand-in for the bcrypt library, to instantiate the parameters \<open>bcrypt_hash\<close> and
  \<open>bcrypt_compare\<close> on concrete inputs.
\<close>

definition toyHash :: "string \<Rightarrow> string" where
  "toyHash s = ''hash:'' @ s"

definition toyCompare :: "string \<Rightarrow> string \<Rightarrow> bool" where
  "toyCompare p h = (h = toyHash p)"

text \<open>A goal of 1000 created with the milestones Flights 600 and Hotel 400 and the secret \<open>s3cret\<close>.\<close>

definition twoRows :: "milestoneRow list" where
  "twoRows = [\<lparr> row_id = None, row_name = [], row_targetAmount = 0 \<rparr>,
              \<lparr> row_id = None, row_name = [], row_targetAmount = 0 \<rparr>]"

definition createData :: GoalFormData where
  "createData = \<lparr> fd_name = ''Trip'', fd_description = None, fd_targetAmount = 1000,
                   fd_milestones = [\<lparr> mi_name = ''Flights'', mi_targetAmount = 600 \<rparr>,
                                    \<lparr> mi_name = ''Hotel'', mi_targetAmount = 400 \<rparr>] \<rparr>"

definition editStore :: store where
  "editStore = snd (createOnSubmit toyHash noFaults ''s3cret'' ''acct_1'' twoRows createData emptyStore)"

text \<open>An edit that replaces the two milestones, and one whose milestones add up to 900.\<close>

definition editData :: GoalFormData where
  "editData = \<lparr> fd_name = ''Trip'', fd_description = None, fd_targetAmount = 1000,
                 fd_milestones = [\<lparr> mi_name = ''Deposit'', mi_targetAmount = 500 \<rparr>,
                                  \<lparr> mi_name = ''Balance'', mi_targetAmount = 500 \<rparr>] \<rparr>"

definition badData :: GoalFormData where
  "badData = \<lparr> fd_name = ''Trip'', fd_description = None, fd_targetAmount = 1000,
                fd_milestones = [\<lparr> mi_name = ''Deposit'', mi_targetAmount = 500 \<rparr>,
                                 \<lparr> mi_name = ''Balance'', mi_targetAmount = 400 \<rparr>] \<rparr>"

definition editPage0 :: editPage where
  "editPage0 = \<lparr> ep_goalId = 1, ep_password = ''s3cret'', ep_goal = Goal_get editStore 1,
                  existingMilestones = loadMilestones editStore 1,
                  milestones = twoRows \<rparr>"

text \<open>The store rejects the create of the second submitted milestone.\<close>

definition failSecondCreate :: faults where
  "failSecondCreate = noFaults\<lparr> createFails := (\<lambda>index. index = 1) \<rparr>"

definition afterFailedEdit :: store where
  "afterFailedEdit = snd (editVisit toyCompare failSecondCreate editStore 1 ''s3cret'' twoRows editData)"

definition tripGoal :: goal where
  "tripGoal = \<lparr> g_id = 1, g_name = ''Trip'', g_description = Some [], g_targetAmount = 1000,
                 g_stripeAccountId = ''acct_1'', g_editPassword = toyHash ''s3cret'' \<rparr>"

definition afterEdit :: store where
  "afterEdit = snd (editVisit toyCompare noFaults editStore 1 ''s3cret'' twoRows editData)"

text \<open>
  The edit page of that goal after the visitor removed the second row and typed 600 as the
  target: one row is shown, the form still holds both milestones.
\<close>

definition stalePage :: editPage where
  "stalePage = editPage0\<lparr> milestones :=
                  removeMilestone 1
                    (map (\<lambda>m. \<lparr> row_id = Some (m_id m), row_name = m_name m,
                                 row_targetAmount = m_targetAmount m \<rparr>)
                         (loadMilestones editStore 1)) \<rparr>"

definition staleData :: GoalFormData where
  "staleData = (resetValues tripGoal (loadMilestones editStore 1))\<lparr> fd_targetAmount := 600 \<rparr>"

definition afterStale :: store where
  "afterStale = snd (onSubmit noFaults stalePage staleData editStore)"

text \<open>The store rejects the delete of the milestone Hotel (identifier 3).\<close>

definition failHotelDelete :: faults where
  "failHotelDelete = noFaults\<lparr> deleteFails := (\<lambda>mid. mid = 3) \<rparr>"

definition afterFailedDelete :: store where
  "afterFailedDelete = snd (editVisit toyCompare failHotelDelete editStore 1 ''s3cret'' twoRows editData)"

section \<open>Double-precision arithmetic: evaluation\<close>

lemma floor_rat_numeral: "\<lfloor>(numeral a :: rat) / numeral b\<rfloor> = numeral a div numeral b"
  using floor_divide_of_int_eq [of "numeral a" "numeral b", where ?'a = rat] by simp

lemma ilog2_small: "n < 2 \<Longrightarrow> ilog2 n = 0"
  by (simp add: ilog2.simps)

lemma ilog2_step: "2 \<le> n \<Longrightarrow> ilog2 n = Suc (ilog2 (n div 2))"
  by (subst ilog2.simps) simp

lemmas dbl_eval = toDouble_def binade_def pow2_def roundHalfEven_def ilog2_small ilog2_step Let_def
  fadd_def fsub_def fmul_def fdiv_def floor_rat_numeral

text \<open>
  The doubles nearest to 0.1, 0.2, 0.3, 0.01 and 0.11, and the sums of doubles used below.
  0.1 + 0.2 is 0.30000000000000004, and adding 0.3 gives 0.6000000000000001; 0.3 + 0.2 is
  0.5, and adding 0.1 gives 0.6.
\<close>

lemma decimal_doubles:
  shows "toDouble (1 / 10) = 3602879701896397 / 36028797018963968"
    and "toDouble (1 / 5) = 3602879701896397 / 18014398509481984"
    and "toDouble (3 / 10) = 5404319552844595 / 18014398509481984"
    and "toDouble (1 / 100) = 5764607523034235 / 576460752303423488"
    and "toDouble (11 / 100) = 7926335344172073 / 72057594037927936"
    and "fdiv 10 100 = 3602879701896397 / 36028797018963968"
    and "fdiv 20 100 = 3602879701896397 / 18014398509481984"
    and "fdiv 30 100 = 5404319552844595 / 18014398509481984"
  by (simp_all add: dbl_eval)

lemma decimal_sums:
  shows "fadd 0 (3602879701896397 / 36028797018963968) = 3602879701896397 / 36028797018963968"
    and "fadd (3602879701896397 / 36028797018963968) (3602879701896397 / 18014398509481984)
           = 1351079888211149 / 4503599627370496"
    and "fadd (1351079888211149 / 4503599627370496) (5404319552844595 / 18014398509481984)
           = 1351079888211149 / 2251799813685248"
    and "fadd 0 (5404319552844595 / 18014398509481984) = 5404319552844595 / 18014398509481984"
    and "fadd (5404319552844595 / 18014398509481984) (3602879701896397 / 18014398509481984) = 1 / 2"
    and "fadd (1 / 2) (3602879701896397 / 36028797018963968) = 5404319552844595 / 9007199254740992"
    and "fadd 0 (5764607523034235 / 576460752303423488) = 5764607523034235 / 576460752303423488"
    and "fadd (5764607523034235 / 576460752303423488) (3602879701896397 / 36028797018963968)
           = 7926335344172073 / 72057594037927936"
  by (simp_all add: dbl_eval)

lemma whole_sums:
  shows "fadd 0 1000 = 1000" and "fadd 1000 1500 = 2500" and "fadd 2500 500 = 3000"
    and "fadd 0 600 = 600" and "fadd 600 600 = 1200" and "fadd 600 400 = 1000"
    and "fadd 0 500 = 500" and "fadd 500 500 = 1000" and "fadd 500 400 = 900"
    and "fadd 0 25 = 25" and "fadd 25 50 = 75"
    and "fsub 1000 1000 = 0" and "fsub 600 600 = 0" and "fsub 900 1000 = - 100"
  by (simp_all add: dbl_eval)

section \<open>Progress calculator: proofs\<close>

lemma foldl_add_amount:
  "foldl (\<lambda>sum d. sum + d_amount d) a ds = a + sum_list (map d_amount ds)"
  by (induction ds arbitrary: a) (simp_all add: add.assoc)

lemma currentAmount_sum_list:
  "currentAmount ds = sum_list (map d_amount (filter (\<lambda>d. d_status d = Some Completed) ds))"
  by (simp add: currentAmount_def foldl_add_amount)

lemma currentAmount_mset:
  "currentAmount ds =
     sum_mset (image_mset d_amount (filter_mset (\<lambda>d. d_status d = Some Completed) (mset ds)))"
  by (simp add: currentAmount_sum_list flip: sum_mset_sum_list)

lemma mset_loadDonations:
  "mset (loadDonations st G) = filter_mset (\<lambda>d. d_goalId d = G) (mset (Donation_tbl st))"
  by (simp add: loadDonations_def)

lemma set_loadDonations:
  "set (loadDonations st G) = {d \<in> set (Donation_tbl st). d_goalId d = G}"
  by (auto simp: loadDonations_def)

lemma currentAmount_loadDonations:
  "currentAmount (loadDonations st G) =
     sum_mset (image_mset d_amount
       (filter_mset (\<lambda>d. d_status d = Some Completed \<and> d_goalId d = G) (mset (Donation_tbl st))))"
  by (simp add: currentAmount_mset mset_loadDonations filter_filter_mset conj_commute)

lemma loadDonations_nextId [simp]:
  "loadDonations (st\<lparr> nextId := n \<rparr>) G = loadDonations st G"
  by (simp add: loadDonations_def)

lemma currentAmount_append:
  "currentAmount (loadDonations (st\<lparr> Donation_tbl := Donation_tbl st @ [d] \<rparr>) G) =
     currentAmount (loadDonations st G)
       + (if d_status d = Some Completed \<and> d_goalId d = G then d_amount d else 0)"
  by (simp add: currentAmount_loadDonations)

lemma filter_completed_loadDonations:
  "filter (\<lambda>d. d_status d = Some Completed) (loadDonations st G) =
     sort_key (\<lambda>d. - d_createdAt d)
       (filter (\<lambda>d. d_status d = Some Completed \<and> d_goalId d = G) (Donation_tbl st))"
  by (simp add: loadDonations_def filter_sort conj_commute)

lemma currentAmount64_loadDonations:
  "currentAmount64 (loadDonations st G) =
     foldl fadd 0 (map d_amount
       (sort_key (\<lambda>d. - d_createdAt d)
          (filter (\<lambda>d. d_status d = Some Completed \<and> d_goalId d = G) (Donation_tbl st))))"
  by (simp add: currentAmount64_def filter_completed_loadDonations foldl_map)

lemma sort_key_distinct_perm:
  assumes "mset ys = mset xs" and "distinct (map f xs)"
  shows "sort_key f ys = sort_key f xs"
proof -
  from assms(2) have "inj_on f (set xs)" by (simp add: distinct_map)
  moreover from assms(1) have "set ys = set xs" by (rule mset_eq_setD)
  ultimately have "inj_on f (set ys)" by simp
  from sort_key_inj_key_eq [of ys "sort_key f xs" f] assms(1) this
  show ?thesis by simp
qed

text \<open>
  C3, as the code has it. For every goal \<open>G\<close>, the page's \<open>currentAmount\<close>, computed in
  doubles as the page does (\<open>currentAmount64\<close>), is the sum, added from the left over the
  list sorted newest first, of the amounts of
  exactly the stored donations whose status is completed and whose goalId is \<open>G\<close>:
  pending and failed donations, and donations without a status, take no part in it. When
  the completed donations of the goal have pairwise distinct \<open>createdAt\<close>, any reordering
  of the stored donations gives the same value.
\<close>

theorem currentAmount64_newest_first:
  "currentAmount64 (loadDonations st G) =
     foldl fadd 0 (map d_amount
       (sort_key (\<lambda>d. - d_createdAt d)
          (filter (\<lambda>d. d_status d = Some Completed \<and> d_goalId d = G) (Donation_tbl st))))
   \<and> (\<forall>ds'. mset ds' = mset (Donation_tbl st)
             \<and> distinct (map d_createdAt
                   (filter (\<lambda>d. d_status d = Some Completed \<and> d_goalId d = G) (Donation_tbl st)))
         \<longrightarrow> currentAmount64 (loadDonations (st\<lparr> Donation_tbl := ds' \<rparr>) G) =
             currentAmount64 (loadDonations st G))"
proof (intro conjI allI impI)
  show "currentAmount64 (loadDonations st G) =
     foldl fadd 0 (map d_amount
       (sort_key (\<lambda>d. - d_createdAt d)
          (filter (\<lambda>d. d_status d = Some Completed \<and> d_goalId d = G) (Donation_tbl st))))"
    by (rule currentAmount64_loadDonations)
next
  fix ds'
  let ?P = "\<lambda>d. d_status d = Some Completed \<and> d_goalId d = G"
  let ?k = "\<lambda>d. - d_createdAt d"
  assume h: "mset ds' = mset (Donation_tbl st)
             \<and> distinct (map d_createdAt (filter ?P (Donation_tbl st)))"
  have s: "sort_key ?k (filter ?P ds') = sort_key ?k (filter ?P (Donation_tbl st))"
  proof (rule sort_key_distinct_perm)
    from h have "mset ds' = mset (Donation_tbl st)" ..
    then show "mset (filter ?P ds') = mset (filter ?P (Donation_tbl st))"
      by (simp only: mset_filter)
    from h have "distinct (map d_createdAt (filter ?P (Donation_tbl st)))" ..
    then show "distinct (map ?k (filter ?P (Donation_tbl st)))"
      by (simp add: distinct_map inj_on_def)
  qed
  have t: "Donation_tbl (st\<lparr> Donation_tbl := ds' \<rparr>) = ds'"
    by simp
  show "currentAmount64 (loadDonations (st\<lparr> Donation_tbl := ds' \<rparr>) G) =
          currentAmount64 (loadDonations st G)"
    by (simp only: currentAmount64_loadDonations t s)
qed

theorem currentAmount64_newest_first_witness:
  "mset (rev mixedDonations) = mset (Donation_tbl mixedStore)
   \<and> distinct (map d_createdAt
        (filter (\<lambda>d. d_status d = Some Completed \<and> d_goalId d = 1) (Donation_tbl mixedStore)))
   \<and> currentAmount64 (loadDonations mixedStore 1) = 75
   \<and> currentAmount64 (loadDonations (mixedStore\<lparr> Donation_tbl := rev mixedDonations \<rparr>) 1) = 75"
proof -
  have p: "mset (rev mixedDonations) = mset (Donation_tbl mixedStore)"
    by (simp add: mixedStore_def)
  have d: "distinct (map d_createdAt
        (filter (\<lambda>d. d_status d = Some Completed \<and> d_goalId d = 1) (Donation_tbl mixedStore)))"
    by (simp add: mixedStore_def mixedDonations_def)
  have v: "foldl fadd 0 (map d_amount
       (sort_key (\<lambda>d. - d_createdAt d)
          (filter (\<lambda>d. d_status d = Some Completed \<and> d_goalId d = 1) (Donation_tbl mixedStore)))) = 75"
    by (simp add: mixedStore_def mixedDonations_def whole_sums)
  from currentAmount64_newest_first [of mixedStore 1] p d v show ?thesis
    by simp
qed

text \<open>
  C3, as the claim states it, fails. Three completed donations of 0.10, 0.20 and 0.30 with
  the same \<open>createdAt\<close> give 0.6000000000000001 in the stored order and 0.6 in the
  opposite order. The same three amounts inserted one after the other give 0.6 when
  inserted in ascending order of amount and 0.6000000000000001 in descending order.
\<close>

theorem currentAmount64_depends_on_order:
  "mset (Donation_tbl tieStoreRev) = mset (Donation_tbl tieStore)
   \<and> currentAmount64 (loadDonations tieStore 1) = 1351079888211149 / 2251799813685248
   \<and> currentAmount64 (loadDonations tieStoreRev 1) = 5404319552844595 / 9007199254740992
   \<and> currentAmount64 (loadDonations ascendingStore 1) = 5404319552844595 / 9007199254740992
   \<and> currentAmount64 (loadDonations descendingStore 1) = 1351079888211149 / 2251799813685248"
proof -
  have m: "mset (Donation_tbl tieStoreRev) = mset (Donation_tbl tieStore)"
    by (simp add: tieStoreRev_def tieStore_def)
  have a: "currentAmount64 (loadDonations tieStore 1) = 1351079888211149 / 2251799813685248"
    by (simp add: currentAmount64_def loadDonations_def tieStore_def tieLedger_def centsDonation_def
          emptyStore_def decimal_doubles decimal_sums)
  have b: "currentAmount64 (loadDonations tieStoreRev 1) = 5404319552844595 / 9007199254740992"
    by (simp add: currentAmount64_def loadDonations_def tieStoreRev_def tieLedger_def centsDonation_def
          emptyStore_def decimal_doubles decimal_sums)
  have c: "currentAmount64 (loadDonations ascendingStore 1) = 5404319552844595 / 9007199254740992"
    by (simp add: currentAmount64_def loadDonations_def ascendingStore_def centsDonation_def
          emptyStore_def decimal_doubles decimal_sums)
  have d: "currentAmount64 (loadDonations descendingStore 1) = 1351079888211149 / 2251799813685248"
    by (simp add: currentAmount64_def loadDonations_def descendingStore_def centsDonation_def
          emptyStore_def decimal_doubles decimal_sums)
  from m a b c d show ?thesis by blast
qed

lemma length_positionsFrom: "length (positionsFrom r g cur ms) = length ms"
  by (induction ms arbitrary: r) (simp_all add: Let_def)


lemma length_milestonePositions: "length (milestonePositions (Some g) ms cur) = length ms"
  by (cases ms) (simp_all add: milestonePositions_def length_positionsFrom del: positionsFrom.simps)


lemma sorted_loadMilestones: "sorted (map m_order (loadMilestones st gid))"
  by (simp add: loadMilestones_def)

lemma length_positionsFrom64: "length (positionsFrom64 r g cur ms) = length ms"
  by (induction ms arbitrary: r) (simp_all add: Let_def)

lemma nth_positionsFrom64:
  "i < length ms \<Longrightarrow>
   positionsFrom64 r g cur ms ! i =
     \<lparr> mp_milestone = ms ! i,
       position = fmul (fdiv (foldl fadd r (map m_targetAmount (take (Suc i) ms))) (g_targetAmount g)) 100,
       reached = (cur \<ge> foldl fadd r (map m_targetAmount (take (Suc i) ms))) \<rparr>"
proof (induction ms arbitrary: r i)
  case Nil
  then show ?case by simp
next
  case (Cons m ms)
  show ?case
  proof (cases i)
    case 0
    then show ?thesis by (simp add: Let_def)
  next
    case (Suc j)
    with Cons.prems have "j < length ms" by simp
    from Cons.IH [OF this, of "fadd r (m_targetAmount m)"] Suc
    show ?thesis by (simp add: Let_def)
  qed
qed

lemma length_milestonePositions64: "length (milestonePositions64 (Some g) ms cur) = length ms"
  by (cases ms) (simp_all add: milestonePositions64_def length_positionsFrom64 del: positionsFrom64.simps)

lemma nth_milestonePositions64:
  "i < length ms \<Longrightarrow>
   milestonePositions64 (Some g) ms cur ! i =
     \<lparr> mp_milestone = ms ! i,
       position = fmul (fdiv (runningTotal64 ms i) (g_targetAmount g)) 100,
       reached = (cur \<ge> runningTotal64 ms i) \<rparr>"
  using nth_positionsFrom64 [of i ms 0 g cur]
  by (cases ms) (simp_all add: milestonePositions64_def runningTotal64_def del: positionsFrom64.simps)

lemma ladder_running_totals:
  "map (runningTotal64 ladderMilestones) [0, 1, 2] = [1000, 2500, 3000]"
  by (simp add: runningTotal64_def ladderMilestones_def whole_sums)

text \<open>
  C4, as the code has it. The page takes a goal's milestones in ascending \<open>order\<close>. For any
  milestone list \<open>ms\<close> handed to \<open>milestonePositions\<close>, computed in doubles as the page does
  (\<open>milestonePositions64\<close>), the entry at index \<open>i\<close> belongs to
  milestone \<open>ms ! i\<close> and is reported reached if and only if \<open>currentAmount\<close> is at least the
  running total at that milestone: the targetAmounts up to and including it, added in
  doubles from the left. On the ladder with increments 1000, 1500 and 500 the running
  totals are 1000, 2500 and 3000; a current amount of 2400 reports only the first
  milestone reached and 3000 reports all three.
\<close>

theorem reached_iff_running_total:
  "sorted (map m_order (loadMilestones st gid))
   \<and> length (milestonePositions64 (Some g) ms cur) = length ms
   \<and> (\<forall>i < length ms.
         mp_milestone (milestonePositions64 (Some g) ms cur ! i) = ms ! i
         \<and> reached (milestonePositions64 (Some g) ms cur ! i) = (cur \<ge> runningTotal64 ms i))
   \<and> map (runningTotal64 ladderMilestones) [0, 1, 2] = [1000, 2500, 3000]
   \<and> map reached (milestonePositions64 (Some ladderGoal) ladderMilestones 2400) = [True, False, False]
   \<and> map reached (milestonePositions64 (Some ladderGoal) ladderMilestones 3000) = [True, True, True]"
proof -
  have a: "map reached (milestonePositions64 (Some ladderGoal) ladderMilestones 2400) = [True, False, False]"
    by (simp add: milestonePositions64_def ladderMilestones_def Let_def whole_sums)
  have b: "map reached (milestonePositions64 (Some ladderGoal) ladderMilestones 3000) = [True, True, True]"
    by (simp add: milestonePositions64_def ladderMilestones_def Let_def whole_sums)
  show ?thesis
    using ladder_running_totals a b
    by (simp add: sorted_loadMilestones length_milestonePositions64 nth_milestonePositions64)
qed

theorem reached_iff_running_total_witness:
  "(1::nat) < length overMilestones
   \<and> runningTotal64 overMilestones 1 = 1200
   \<and> reached (milestonePositions64 (Some overGoal) overMilestones 1100 ! 1) = False
   \<and> reached (milestonePositions64 (Some overGoal) overMilestones 1200 ! 1) = True"
proof -
  have l: "(1::nat) < length overMilestones"
    by (simp add: overMilestones_def)
  have c: "runningTotal64 overMilestones 1 = 1200"
    by (simp add: runningTotal64_def overMilestones_def whole_sums)
  from reached_iff_running_total [of emptyStore 1 overGoal overMilestones 1100]
       reached_iff_running_total [of emptyStore 1 overGoal overMilestones 1200] l c
  show ?thesis by simp
qed

text \<open>
  C4, as the claim states it, fails. With milestones of 0.10 and 0.20 and a current amount
  of 0.30, the amounts say that the second threshold is met (0.30 is 0.10 + 0.20), and
  the page reports the second milestone not reached: its running total is
  0.30000000000000004. With milestones of 0.01 and 0.10 and a current amount of 0.11, the
  page reports the second milestone reached, while the current amount is below the sum of
  the two stored targetAmounts.
\<close>

theorem reached_differs_from_threshold:
  "map m_targetAmount dimeMilestones = [toDouble (10 / 100), toDouble (20 / 100)]
   \<and> (30 / 100 :: rat) \<ge> 10 / 100 + 20 / 100
   \<and> reached (milestonePositions64 (Some ladderGoal) dimeMilestones (toDouble (30 / 100)) ! 1) = False
   \<and> map m_targetAmount centMilestones = [toDouble (1 / 100), toDouble (10 / 100)]
   \<and> reached (milestonePositions64 (Some ladderGoal) centMilestones (toDouble (11 / 100)) ! 1) = True
   \<and> \<not> toDouble (11 / 100) \<ge> cumulativeThreshold centMilestones 1"
proof -
  have a: "map m_targetAmount dimeMilestones = [toDouble (10 / 100), toDouble (20 / 100)]"
    by (simp add: dimeMilestones_def)
  have b: "(30 / 100 :: rat) \<ge> 10 / 100 + 20 / 100"
    by simp
  have c: "reached (milestonePositions64 (Some ladderGoal) dimeMilestones (toDouble (30 / 100)) ! 1) = False"
    by (simp add: milestonePositions64_def dimeMilestones_def Let_def decimal_doubles decimal_sums)
  have d: "map m_targetAmount centMilestones = [toDouble (1 / 100), toDouble (10 / 100)]"
    by (simp add: centMilestones_def)
  have e: "reached (milestonePositions64 (Some ladderGoal) centMilestones (toDouble (11 / 100)) ! 1) = True"
    by (simp add: milestonePositions64_def centMilestones_def Let_def decimal_doubles decimal_sums)
  have f: "\<not> toDouble (11 / 100) \<ge> cumulativeThreshold centMilestones 1"
    by (simp add: cumulativeThreshold_def centMilestones_def decimal_doubles)
  from a b c d e f show ?thesis by blast
qed






section \<open>Data client operations: what they leave unchanged\<close>

lemma deleteAll_frame:
  "Goal_tbl (deleteAll fails ex st) = Goal_tbl st
   \<and> Donation_tbl (deleteAll fails ex st) = Donation_tbl st
   \<and> nextId (deleteAll fails ex st) = nextId st
   \<and> clock (deleteAll fails ex st) = clock st"
  by (induction ex arbitrary: st) (simp_all add: Milestone_delete_def)

lemma Milestone_tbl_deleteAll:
  "Milestone_tbl (deleteAll fails ex st) =
     filter (\<lambda>m. m_id m \<notin> m_id ` {e \<in> set ex. \<not> fails (m_id e)}) (Milestone_tbl st)"
proof (induction ex arbitrary: st)
  case Nil
  then show ?case by simp
next
  case (Cons e ex)
  show ?case
    by (cases "fails (m_id e)") (auto simp: Cons.IH Milestone_delete_def intro!: filter_cong)
qed

lemma createAll_frame:
  "Goal_tbl (createAll fails gid k mis st) = Goal_tbl st
   \<and> Donation_tbl (createAll fails gid k mis st) = Donation_tbl st
   \<and> clock (createAll fails gid k mis st) = clock st"
  by (induction mis arbitrary: k st) (simp_all add: Milestone_create_def)

lemma Milestone_tbl_createAll:
  "Milestone_tbl (createAll (\<lambda>_. False) gid k mis st) =
     Milestone_tbl st @
       map (\<lambda>(j, mi). \<lparr> m_id = nextId st + j, m_goalId = gid, m_name = mi_name mi,
                         m_targetAmount = mi_targetAmount mi, m_order = int (k + j) \<rparr>)
           (enumerate 0 mis)"
proof (induction mis arbitrary: k st)
  case Nil
  then show ?case by simp
next
  case (Cons mi mis)
  show ?case
    by (simp add: Cons.IH Milestone_create_def enumerate_Suc_eq split_def o_def)
qed

lemma Goal_update_frame:
  "Goal_update gid data st = Some st1 \<Longrightarrow>
   Milestone_tbl st1 = Milestone_tbl st \<and> Donation_tbl st1 = Donation_tbl st
   \<and> nextId st1 = nextId st \<and> clock st1 = clock st"
  by (auto simp: Goal_update_def split: option.splits)

lemma onSubmit_Donation_tbl:
  "Donation_tbl (snd (onSubmit fl page data st)) = Donation_tbl st"
  by (auto simp: onSubmit_def Let_def deleteAll_frame createAll_frame
           dest: Goal_update_frame split: option.splits)

lemma createOnSubmit_Donation_tbl:
  "Donation_tbl (snd (createOnSubmit bcrypt_hash fl editPassword accountId rows data st)) = Donation_tbl st"
  by (simp add: createOnSubmit_def Let_def createAll_frame Goal_create_def)

lemma set_loadMilestones:
  "set (loadMilestones st gid) = {m \<in> set (Milestone_tbl st). m_goalId m = gid}"
  by (auto simp: loadMilestones_def)

lemma loadGoal_Inr:
  "Goal_get st gid = Some g \<Longrightarrow> bcrypt_compare password (g_editPassword g) \<Longrightarrow>
   loadGoal bcrypt_compare False st gid password =
     Inr \<lparr> ep_goalId = gid, ep_password = password, ep_goal = Some g,
           existingMilestones = loadMilestones st gid,
           milestones = map (\<lambda>m. \<lparr> row_id = Some (m_id m), row_name = m_name m,
                                     row_targetAmount = m_targetAmount m \<rparr>)
                            (loadMilestones st gid) \<rparr>"
  by (simp add: loadGoal_def Let_def)

lemma Goal_update_Some:
  "Goal_get st gid = Some g \<Longrightarrow> \<exists>st1. Goal_update gid data st = Some st1"
  by (simp add: Goal_update_def)

lemma filter_goal_after_delete:
  "filter (\<lambda>m. m_goalId m = gid)
     (filter (\<lambda>m. m_id m \<notin> m_id ` {e \<in> set (loadMilestones st gid). \<not> False}) (Milestone_tbl st)) = []"
  by (auto simp: filter_empty_conv set_loadMilestones)

section \<open>Payment webhook: proofs\<close>

lemma handler_paymentCompleted:
  "signature \<noteq> [] \<Longrightarrow>
   handler False (paymentCompleted signature gid cents name msg pid) st =
     (200, st\<lparr> Donation_tbl := Donation_tbl st @
                  [\<lparr> d_id = nextId st, d_goalId = gid, d_amount = of_int cents / 100,
                     d_donorName = Some (orElse name ''Anonymous''),
                     d_message = Some (orElse msg []),
                     d_stripePaymentId = pid,
                     d_status = Some Completed,
                     d_createdAt = clock st \<rparr>],
                nextId := Suc (nextId st) \<rparr>)"
  by (simp add: handler_def paymentCompleted_def createDonation_def)

lemma handler_unsigned_rejected:
  "stripe_signature event = None \<or> stripe_signature event = Some [] \<Longrightarrow>
   handler gqlFails event st = (400, st)"
  by (auto simp: handler_def)

lemma handler_ignores_signature_value:
  "s1 \<noteq> [] \<Longrightarrow> s2 \<noteq> [] \<Longrightarrow>
   handler gqlFails (event\<lparr> stripe_signature := Some s1 \<rparr>) st =
   handler gqlFails (event\<lparr> stripe_signature := Some s2 \<rparr>) st"
  by (simp add: handler_def)

lemma orElse_Anonymous_nonempty: "orElse x ''Anonymous'' \<noteq> []"
  by (simp add: orElse_def split: option.splits)

lemma handler_cases:
  assumes "handler gqlFails event st = (code, st')"
  obtains (unchanged) "st' = st"
  | (created) d where
      "st' = st\<lparr> Donation_tbl := Donation_tbl st @ [d], nextId := Suc (nextId st) \<rparr>"
      "d_status d = Some Completed"
      "\<exists>n. d_donorName d = Some n \<and> n \<noteq> []"
  using assms
  by (auto simp: handler_def createDonation_def orElse_Anonymous_nonempty
           split: option.splits if_splits)




text \<open>
  C2. The handler at a notification whose signature was made with no secret at all: it
  answers 200 and the store holds a new completed donation. The handler has no
  verification step; it only rejects a missing or empty header
  (\<open>handler_unsigned_rejected\<close>), and its result does not depend on the header's value
  (\<open>handler_ignores_signature_value\<close>).
\<close>

theorem forged_signature_creates_donation:
  "handler False forgedRequest emptyStore =
     (200, \<lparr> Goal_tbl = [], Milestone_tbl = [],
              Donation_tbl = [\<lparr> d_id = 1, d_goalId = 1, d_amount = 50,
                                 d_donorName = Some ''Anonymous'', d_message = Some [],
                                 d_stripePaymentId = ''pi_9'', d_status = Some Completed,
                                 d_createdAt = 0 \<rparr>],
              nextId = 2, clock = 0 \<rparr>)"
  by (simp add: forgedRequest_def handler_paymentCompleted emptyStore_def orElse_def)

text \<open>
  C10. Whatever the webhook handler receives, it either leaves the ledger as it was or
  appends exactly one donation; that donation has status completed (never pending or
  failed) and a non-empty donor name, it is listed in the completed-donations feed of its
  goal, and it adds its amount to the goal's \<open>currentAmount\<close>. A notification without a
  donor name is stored under the name Anonymous. The two form handlers, the other writers
  of the store, leave the ledger untouched.
\<close>

theorem webhook_donations_completed:
  "(handler gqlFails event st = (code, st') \<longrightarrow>
      Donation_tbl st' = Donation_tbl st \<or>
      (\<exists>d. Donation_tbl st' = Donation_tbl st @ [d]
           \<and> d_status d = Some Completed
           \<and> (\<exists>n. d_donorName d = Some n \<and> n \<noteq> [])
           \<and> d \<in> set (completedFeed st' (d_goalId d))
           \<and> currentAmount (loadDonations st' (d_goalId d)) =
               currentAmount (loadDonations st (d_goalId d)) + d_amount d))
   \<and> (signature \<noteq> [] \<longrightarrow>
        map d_donorName (Donation_tbl (snd (handler False (paymentCompleted signature gid cents None msg pid) st))) =
        map d_donorName (Donation_tbl st) @ [Some ''Anonymous''])
   \<and> Donation_tbl (snd (onSubmit fl page data st)) = Donation_tbl st
   \<and> Donation_tbl (snd (createOnSubmit bcrypt_hash fl editPassword accountId rows data st)) = Donation_tbl st"
proof -
  have a: "Donation_tbl st' = Donation_tbl st \<or>
      (\<exists>d. Donation_tbl st' = Donation_tbl st @ [d]
           \<and> d_status d = Some Completed
           \<and> (\<exists>n. d_donorName d = Some n \<and> n \<noteq> [])
           \<and> d \<in> set (completedFeed st' (d_goalId d))
           \<and> currentAmount (loadDonations st' (d_goalId d)) =
               currentAmount (loadDonations st (d_goalId d)) + d_amount d)"
    if h: "handler gqlFails event st = (code, st')"
    using h
  proof (cases rule: handler_cases)
    case unchanged
    then show ?thesis by simp
  next
    case (created d)
    have feed: "d \<in> set (completedFeed st' (d_goalId d))"
      by (simp add: completedFeed_def set_loadDonations created)
    have amt: "currentAmount (loadDonations st' (d_goalId d)) =
                  currentAmount (loadDonations st (d_goalId d)) + d_amount d"
      using currentAmount_append [of st d "d_goalId d"] by (simp add: created)
    show ?thesis using created feed amt by auto
  qed
  have b: "map d_donorName (Donation_tbl (snd (handler False (paymentCompleted signature gid cents None msg pid) st))) =
        map d_donorName (Donation_tbl st) @ [Some ''Anonymous'']"
    if s: "signature \<noteq> []"
    by (simp add: handler_paymentCompleted [OF s] orElse_def)
  have c: "Donation_tbl (snd (onSubmit fl page data st)) = Donation_tbl st"
    by (rule onSubmit_Donation_tbl)
  have d: "Donation_tbl (snd (createOnSubmit bcrypt_hash fl editPassword accountId rows data st)) = Donation_tbl st"
    by (rule createOnSubmit_Donation_tbl)
  from a b c d show ?thesis by blast
qed

theorem webhook_donations_completed_witness:
  "handler False forgedRequest emptyStore = (200, afterForged)
   \<and> ''forged'' \<noteq> []
   \<and> Donation_tbl afterForged \<noteq> Donation_tbl emptyStore
   \<and> (\<exists>d. Donation_tbl afterForged = Donation_tbl emptyStore @ [d]
           \<and> d_status d = Some Completed
           \<and> d_donorName d = Some ''Anonymous''
           \<and> d \<in> set (completedFeed afterForged (d_goalId d)))"
proof -
  have h: "handler False forgedRequest emptyStore = (200, afterForged)"
    by (simp add: afterForged_def forgedRequest_def handler_paymentCompleted)
  have s: "''forged'' \<noteq> []" by simp
  have ne: "Donation_tbl afterForged \<noteq> Donation_tbl emptyStore"
    by (simp add: afterForged_def forgedRequest_def handler_paymentCompleted)
  have an: "map d_donorName (Donation_tbl afterForged) =
              map d_donorName (Donation_tbl emptyStore) @ [Some ''Anonymous'']"
    using webhook_donations_completed [of False forgedRequest emptyStore 200 afterForged
            "''forged''" 1 5000 None "''pi_9''"] s
    by (simp add: afterForged_def forgedRequest_def)
  from webhook_donations_completed [of False forgedRequest emptyStore 200 afterForged] h ne
  obtain d where d: "Donation_tbl afterForged = Donation_tbl emptyStore @ [d]"
      "d_status d = Some Completed" "d \<in> set (completedFeed afterForged (d_goalId d))"
    by blast
  from an d(1) have "d_donorName d = Some ''Anonymous''" by simp
  with h s ne d show ?thesis by blast
qed

section \<open>Goal forms: proofs\<close>

lemma createData_matches: "\<not> milestoneMismatch twoRows createData"
  by (simp add: milestoneMismatch_def totalMilestoneAmount_def milestoneRunningTotals_def
        watchedMilestones_def watchedTarget_def twoRows_def createData_def upt_rec
        whole_sums decimal_doubles)

lemma editData_matches: "\<not> milestoneMismatch twoRows editData"
  by (simp add: milestoneMismatch_def totalMilestoneAmount_def milestoneRunningTotals_def
        watchedMilestones_def watchedTarget_def twoRows_def editData_def upt_rec
        whole_sums decimal_doubles)

lemma badData_mismatch: "milestoneMismatch twoRows badData"
  by (simp add: milestoneMismatch_def totalMilestoneAmount_def milestoneRunningTotals_def
        watchedMilestones_def watchedTarget_def twoRows_def badData_def upt_rec
        whole_sums decimal_doubles)

lemma onSubmit_mismatch:
  "milestoneMismatch (milestones page) data \<Longrightarrow> onSubmit fl page data st = (MilestoneMismatch, st)"
  by (simp add: onSubmit_def)

lemma createOnSubmit_example:
  "createOnSubmit toyHash noFaults ''s3cret'' ''acct_1'' twoRows createData emptyStore =
     (Created 1 ''s3cret'', editStore)"
  using createData_matches
  by (simp add: editStore_def createOnSubmit_def noFaults_def Let_def emptyStore_def)

lemma editStore_eq:
  "editStore =
     \<lparr> Goal_tbl = [\<lparr> g_id = 1, g_name = ''Trip'', g_description = Some [], g_targetAmount = 1000,
                      g_stripeAccountId = ''acct_1'', g_editPassword = ''hash:s3cret'' \<rparr>],
       Milestone_tbl =
         [\<lparr> m_id = 2, m_goalId = 1, m_name = ''Flights'', m_targetAmount = 600, m_order = 0 \<rparr>,
          \<lparr> m_id = 3, m_goalId = 1, m_name = ''Hotel'', m_targetAmount = 400, m_order = 1 \<rparr>],
       Donation_tbl = [], nextId = 4, clock = 0 \<rparr>"
  using createData_matches
  by (simp add: editStore_def createOnSubmit_def noFaults_def Let_def)
     (simp add: createData_def Goal_create_def Milestone_create_def emptyStore_def
        toyHash_def orElse_def)

lemma Goal_get_editStore:
  "Goal_get editStore 1 = Some \<lparr> g_id = 1, g_name = ''Trip'', g_description = Some [], g_targetAmount = 1000,
                      g_stripeAccountId = ''acct_1'', g_editPassword = ''hash:s3cret'' \<rparr>"
  by (simp add: editStore_eq Goal_get_def)

lemma loadMilestones_editStore:
  "loadMilestones editStore 1 =
         [\<lparr> m_id = 2, m_goalId = 1, m_name = ''Flights'', m_targetAmount = 600, m_order = 0 \<rparr>,
          \<lparr> m_id = 3, m_goalId = 1, m_name = ''Hotel'', m_targetAmount = 400, m_order = 1 \<rparr>]"
  by (simp add: editStore_eq loadMilestones_def)

lemma Goal_get_tripGoal: "Goal_get editStore 1 = Some tripGoal"
  using Goal_get_editStore by (simp add: tripGoal_def toyHash_def)

lemma find_append_fresh:
  "\<forall>x \<in> set xs. \<not> P x \<Longrightarrow> find P (xs @ [y]) = (if P y then Some y else None)"
  by (induction xs) simp_all

lemma loadGoal_wrong_password:
  "Goal_get st gid = Some g \<Longrightarrow> \<not> bcrypt_compare password (g_editPassword g) \<Longrightarrow>
   loadGoal bcrypt_compare False st gid password = Inl InvalidPassword"
  by (simp add: loadGoal_def)

lemma editVisit_wrong_password:
  "Goal_get st gid = Some g \<Longrightarrow> \<not> bcrypt_compare password (g_editPassword g) \<Longrightarrow>
   editVisit bcrypt_compare fl st gid password rows data = (Inl InvalidPassword, st)"
  by (simp add: editVisit_def loadGoal_wrong_password)

lemma createOnSubmit_Created:
  assumes wf: "\<forall>g0 \<in> set (Goal_tbl st0). g_id g0 < nextId st0"
    and cr: "createOnSubmit bcrypt_hash fl0 secret accountId rows0 data0 st0 = (Created gid issued, st1)"
  shows "issued = secret \<and> (\<exists>g. Goal_get st1 gid = Some g \<and> g_editPassword g = bcrypt_hash secret)"
proof -
  from cr have i: "issued = secret" and gid: "gid = nextId st0"
    and st1: "st1 = createAll (createFails fl0) gid 0 (fd_milestones data0)
                      (Goal_create data0 accountId (bcrypt_hash secret) st0)"
    by (auto simp: createOnSubmit_def Let_def split: if_splits)
  from wf have fresh: "\<forall>x \<in> set (Goal_tbl st0). \<not> g_id x = gid"
    by (auto simp: gid)
  have "Goal_tbl st1 = Goal_tbl st0 @
            [\<lparr> g_id = gid, g_name = fd_name data0,
               g_description = Some (orElse (fd_description data0) []),
               g_targetAmount = fd_targetAmount data0,
               g_stripeAccountId = accountId,
               g_editPassword = bcrypt_hash secret \<rparr>]"
    by (simp add: st1 createAll_frame Goal_create_def gid)
  then have "\<exists>g. Goal_get st1 gid = Some g \<and> g_editPassword g = bcrypt_hash secret"
    using find_append_fresh [of "Goal_tbl st0" "\<lambda>g. g_id g = gid", OF fresh]
    by (simp add: Goal_get_def)
  with i show ?thesis by simp
qed

lemma stalePage_rows:
  "milestones stalePage = [\<lparr> row_id = Some 2, row_name = ''Flights'', row_targetAmount = 600 \<rparr>]"
  using loadMilestones_editStore
  by (simp add: stalePage_def removeMilestone_def enumerate_eq_zip upt_rec)

lemma staleData_eq:
  "staleData =
     \<lparr> fd_name = ''Trip'', fd_description = Some [], fd_targetAmount = 600,
       fd_milestones = [\<lparr> mi_name = ''Flights'', mi_targetAmount = 600 \<rparr>,
                        \<lparr> mi_name = ''Hotel'', mi_targetAmount = 400 \<rparr>] \<rparr>"
  using loadMilestones_editStore
  by (simp add: staleData_def resetValues_def tripGoal_def orElse_def)

lemma staleData_passes: "\<not> milestoneMismatch (milestones stalePage) staleData"
  by (simp add: stalePage_rows staleData_eq milestoneMismatch_def totalMilestoneAmount_def
        milestoneRunningTotals_def watchedMilestones_def watchedTarget_def upt_rec
        whole_sums decimal_doubles)

text \<open>
  C7. The edit page of a goal of 1000 with the milestones Flights 600 and Hotel 400, after
  the visitor removed the second row and set the target to 600. The page shows one row;
  the form still holds both milestones and submits both. The check adds the amounts at
  the rows shown (600) and passes; the call ends in Saved, and the store then holds a goal
  of 600 with milestones of 600 and 400, whose sum differs from the target by 400.
\<close>

theorem stale_row_passes_check:
  "map row_name (milestones stalePage) = [''Flights'']
   \<and> map mi_targetAmount (fd_milestones staleData) = [600, 400]
   \<and> fd_targetAmount staleData = 600
   \<and> milestoneMismatch (milestones stalePage) staleData = False
   \<and> fst (onSubmit noFaults stalePage staleData editStore) = Saved
   \<and> map g_targetAmount (Goal_tbl afterStale) = [600]
   \<and> map m_targetAmount (Milestone_tbl afterStale) = [600, 400]"
proof -
  have e: "existingMilestones stalePage = loadMilestones editStore 1" and g: "ep_goalId stalePage = 1"
    by (simp_all add: stalePage_def editPage0_def)
  have s: "onSubmit noFaults stalePage staleData editStore =
        (Saved,
         \<lparr> Goal_tbl = [\<lparr> g_id = 1, g_name = ''Trip'', g_description = Some [], g_targetAmount = 600,
                          g_stripeAccountId = ''acct_1'', g_editPassword = ''hash:s3cret'' \<rparr>],
           Milestone_tbl =
             [\<lparr> m_id = 4, m_goalId = 1, m_name = ''Flights'', m_targetAmount = 600, m_order = 0 \<rparr>,
              \<lparr> m_id = 5, m_goalId = 1, m_name = ''Hotel'', m_targetAmount = 400, m_order = 1 \<rparr>],
           Donation_tbl = [], nextId = 6, clock = 0 \<rparr>)"
    using staleData_passes Goal_get_editStore loadMilestones_editStore
    by (simp add: onSubmit_def e g noFaults_def Goal_update_def Let_def)
       (simp add: staleData_eq editStore_eq orElse_def Milestone_delete_def Milestone_create_def)
  show ?thesis
    unfolding afterStale_def s using staleData_passes
    by (simp add: stalePage_rows staleData_eq)
qed

text \<open>
  C8, as the code has it. A visit of the edit page with the right password and a form that
  passes the mismatch check, during which no store operation fails, ends in Saved, and
  the goal's stored milestones are then exactly the submitted ones, in order, with
  \<open>order\<close> equal to the index: every prior milestone of the goal is gone and every
  submitted one is installed.
\<close>

theorem replace_installs_all_without_faults:
  assumes g: "Goal_get st gid = Some g"
    and pw: "bcrypt_compare password (g_editPassword g)"
    and ok: "\<not> milestoneMismatch rows data"
  shows "fst (editVisit bcrypt_compare noFaults st gid password rows data) = Inr Saved
     \<and> filter (\<lambda>m. m_goalId m = gid)
          (Milestone_tbl (snd (editVisit bcrypt_compare noFaults st gid password rows data))) =
        map (\<lambda>(j, mi). \<lparr> m_id = nextId st + j, m_goalId = gid, m_name = mi_name mi,
                          m_targetAmount = mi_targetAmount mi, m_order = int j \<rparr>)
            (enumerate 0 (fd_milestones data))"
proof -
  from Goal_update_Some [OF g] obtain st1 where u: "Goal_update gid data st = Some st1" ..
  note fr = Goal_update_frame [OF u]
  let ?st2 = "deleteAll (\<lambda>_. False) (loadMilestones st gid) st1"
  let ?st3 = "createAll (\<lambda>_. False) gid 0 (fd_milestones data) ?st2"
  have l: "loadGoal bcrypt_compare False st gid password =
     Inr \<lparr> ep_goalId = gid, ep_password = password, ep_goal = Some g,
           existingMilestones = loadMilestones st gid,
           milestones = map (\<lambda>m. \<lparr> row_id = Some (m_id m), row_name = m_name m,
                                     row_targetAmount = m_targetAmount m \<rparr>)
                            (loadMilestones st gid) \<rparr>"
    using g pw by (rule loadGoal_Inr)
  have v: "editVisit bcrypt_compare noFaults st gid password rows data = (Inr Saved, ?st3)"
    by (simp add: editVisit_def l onSubmit_def ok u noFaults_def Let_def)
  have t2: "filter (\<lambda>m. m_goalId m = gid) (Milestone_tbl ?st2) = []"
    using filter_goal_after_delete [of gid st] by (simp add: Milestone_tbl_deleteAll fr)
  have n2: "nextId ?st2 = nextId st"
    by (simp add: deleteAll_frame fr)
  have "filter (\<lambda>m. m_goalId m = gid) (Milestone_tbl ?st3) =
        map (\<lambda>(j, mi). \<lparr> m_id = nextId st + j, m_goalId = gid, m_name = mi_name mi,
                          m_targetAmount = mi_targetAmount mi, m_order = int j \<rparr>)
            (enumerate 0 (fd_milestones data))"
    by (simp add: Milestone_tbl_createAll t2 n2 filter_map o_def split_def)
  with v show ?thesis by simp
qed

theorem replace_installs_all_without_faults_witness:
  "Goal_get editStore 1 = Some tripGoal
   \<and> toyCompare ''s3cret'' (g_editPassword tripGoal)
   \<and> \<not> milestoneMismatch twoRows editData
   \<and> fst (editVisit toyCompare noFaults editStore 1 ''s3cret'' twoRows editData) = Inr Saved
   \<and> map m_name (filter (\<lambda>m. m_goalId m = 1) (Milestone_tbl afterEdit)) = [''Deposit'', ''Balance'']"
proof -
  have c: "toyCompare ''s3cret'' (g_editPassword tripGoal)"
    by (simp add: toyCompare_def tripGoal_def)
  from replace_installs_all_without_faults
         [of editStore 1 tripGoal toyCompare "''s3cret''" twoRows editData]
       Goal_get_tripGoal c editData_matches
  have "fst (editVisit toyCompare noFaults editStore 1 ''s3cret'' twoRows editData) = Inr Saved"
    and "map m_name (filter (\<lambda>m. m_goalId m = 1) (Milestone_tbl afterEdit)) =
         map m_name (map (\<lambda>(j, mi). \<lparr> m_id = nextId editStore + j, m_goalId = 1, m_name = mi_name mi,
                          m_targetAmount = mi_targetAmount mi, m_order = int j \<rparr>)
            (enumerate 0 (fd_milestones editData)))"
    unfolding afterEdit_def by simp_all
  with Goal_get_tripGoal c editData_matches show ?thesis
    by (simp add: editData_def)
qed

text \<open>
  C8, as the claim states it, fails: the writes are separate calls, none of their results
  is read and nothing is rolled back. When the store rejects the create of the second
  submitted milestone, the save still ends in Saved and the goal is left with the first
  new milestone only: neither its previous milestones (Flights, Hotel) nor the full
  submitted list (Deposit, Balance). When the store rejects the delete of Hotel, the save
  ends in Saved and the goal holds the old Hotel together with the new Deposit and Balance.
\<close>

theorem partial_replacement_on_failure:
  "fst (editVisit toyCompare failSecondCreate editStore 1 ''s3cret'' twoRows editData) = Inr Saved
   \<and> map m_name (Milestone_tbl editStore) = [''Flights'', ''Hotel'']
   \<and> map mi_name (fd_milestones editData) = [''Deposit'', ''Balance'']
   \<and> map m_name (Milestone_tbl afterFailedEdit) = [''Deposit'']
   \<and> fst (editVisit toyCompare failHotelDelete editStore 1 ''s3cret'' twoRows editData) = Inr Saved
   \<and> map m_name (Milestone_tbl afterFailedDelete) = [''Hotel'', ''Deposit'', ''Balance'']"
proof -
  have l: "loadGoal toyCompare False editStore 1 ''s3cret'' =
     Inr \<lparr> ep_goalId = 1, ep_password = ''s3cret'',
           ep_goal = Some \<lparr> g_id = 1, g_name = ''Trip'', g_description = Some [], g_targetAmount = 1000,
                      g_stripeAccountId = ''acct_1'', g_editPassword = ''hash:s3cret'' \<rparr>,
           existingMilestones = loadMilestones editStore 1,
           milestones = map (\<lambda>m. \<lparr> row_id = Some (m_id m), row_name = m_name m,
                                     row_targetAmount = m_targetAmount m \<rparr>)
                            (loadMilestones editStore 1) \<rparr>"
    using Goal_get_editStore by (intro loadGoal_Inr) (simp_all add: toyCompare_def toyHash_def)
  have v: "editVisit toyCompare failSecondCreate editStore 1 ''s3cret'' twoRows editData =
        (Inr Saved,
         editStore\<lparr> Milestone_tbl :=
            [\<lparr> m_id = 4, m_goalId = 1, m_name = ''Deposit'', m_targetAmount = 500, m_order = 0 \<rparr>],
           nextId := 5 \<rparr>)"
    using Goal_get_editStore loadMilestones_editStore l editData_matches
    by (simp add: editVisit_def onSubmit_def failSecondCreate_def noFaults_def
          Goal_update_def Let_def)
       (simp add: editStore_eq editData_def orElse_def upt_rec Milestone_create_def
          Milestone_delete_def)
  have w: "editVisit toyCompare failHotelDelete editStore 1 ''s3cret'' twoRows editData =
        (Inr Saved,
         editStore\<lparr> Milestone_tbl :=
            [\<lparr> m_id = 3, m_goalId = 1, m_name = ''Hotel'', m_targetAmount = 400, m_order = 1 \<rparr>,
             \<lparr> m_id = 4, m_goalId = 1, m_name = ''Deposit'', m_targetAmount = 500, m_order = 0 \<rparr>,
             \<lparr> m_id = 5, m_goalId = 1, m_name = ''Balance'', m_targetAmount = 500, m_order = 1 \<rparr>],
           nextId := 6 \<rparr>)"
    using Goal_get_editStore loadMilestones_editStore l editData_matches
    by (simp add: editVisit_def onSubmit_def failHotelDelete_def noFaults_def
          Goal_update_def Let_def)
       (simp add: editStore_eq editData_def orElse_def upt_rec Milestone_create_def
          Milestone_delete_def)
  show ?thesis
    unfolding afterFailedEdit_def afterFailedDelete_def v w by (simp add: editStore_eq editData_def)
qed

text \<open>
  C9. Let \<open>bcrypt_compare\<close> accept exactly the password a hash was made from. Then for a
  goal whose stored hash is the hash of the issued secret, a visit of the edit page with
  any other secret ends in InvalidPassword (the spec's InvalidSecret) and leaves the store
  as it was; and the goal created by the create page stores the hash of the password it
  issues, so this holds for the store the creation leaves behind.
\<close>

theorem wrong_secret_rejected:
  assumes bc: "\<forall>p s. bcrypt_compare p (bcrypt_hash s) = (p = s)"
    and ne: "presented \<noteq> secret"
  shows "(Goal_get st gid = Some g \<and> g_editPassword g = bcrypt_hash secret \<longrightarrow>
            editVisit bcrypt_compare fl st gid presented rows data = (Inl InvalidPassword, st))
       \<and> ((\<forall>g0 \<in> set (Goal_tbl st0). g_id g0 < nextId st0) \<and>
           createOnSubmit bcrypt_hash fl0 secret accountId rows0 data0 st0 = (Created gid' issued, st1) \<longrightarrow>
           issued = secret \<and>
           editVisit bcrypt_compare fl st1 gid' presented rows data = (Inl InvalidPassword, st1))"
proof -
  have no: "\<not> bcrypt_compare presented (bcrypt_hash secret)"
    using bc ne by simp
  have a: "editVisit bcrypt_compare fl s i presented rows data = (Inl InvalidPassword, s)"
    if "Goal_get s i = Some h" "g_editPassword h = bcrypt_hash secret" for s i h
    using that no by (intro editVisit_wrong_password [of s i h]) simp_all
  have b: "issued = secret \<and>
           editVisit bcrypt_compare fl st1 gid' presented rows data = (Inl InvalidPassword, st1)"
    if wf: "\<forall>g0 \<in> set (Goal_tbl st0). g_id g0 < nextId st0"
      and cr: "createOnSubmit bcrypt_hash fl0 secret accountId rows0 data0 st0 = (Created gid' issued, st1)"
  proof -
    from createOnSubmit_Created [OF wf cr] obtain h where
      "issued = secret" "Goal_get st1 gid' = Some h" "g_editPassword h = bcrypt_hash secret"
      by blast
    then show ?thesis using a by simp
  qed
  from a b show ?thesis by blast
qed

theorem wrong_secret_rejected_witness:
  "(\<forall>p s. toyCompare p (toyHash s) = (p = s))
   \<and> ''guess'' \<noteq> ''s3cret''
   \<and> Goal_get editStore 1 = Some tripGoal \<and> g_editPassword tripGoal = toyHash ''s3cret''
   \<and> list_all (\<lambda>g0. g_id g0 < nextId emptyStore) (Goal_tbl emptyStore)
   \<and> createOnSubmit toyHash noFaults ''s3cret'' ''acct_1'' twoRows createData emptyStore =
        (Created 1 ''s3cret'', editStore)
   \<and> editVisit toyCompare noFaults editStore 1 ''guess'' twoRows editData = (Inl InvalidPassword, editStore)"
proof -
  have bc: "\<forall>p s. toyCompare p (toyHash s) = (p = s)"
    by (auto simp: toyCompare_def toyHash_def)
  have ne: "''guess'' \<noteq> ''s3cret''" by simp
  have h: "g_editPassword tripGoal = toyHash ''s3cret''"
    by (simp add: tripGoal_def)
  have wf: "\<forall>g0 \<in> set (Goal_tbl emptyStore). g_id g0 < nextId emptyStore"
    by (simp add: emptyStore_def)
  from wrong_secret_rejected [of toyCompare toyHash "''guess''" "''s3cret''"
         editStore 1 tripGoal noFaults twoRows editData
         emptyStore noFaults "''acct_1''" twoRows createData 1 "''s3cret''" editStore]
       Goal_get_tripGoal h wf createOnSubmit_example bc ne
  show ?thesis by (simp add: list_all_iff)
qed

end

